theory Spec2Isabelle
  imports Main "HOL-Library.Word" "HOL-Library.Monad_Syntax"
begin

section \<open>The stream state inherited from \<open>std::ios\<close>\<close>

text \<open>
  \<open>class Socket : public std::ios\<close> keeps its status in the \<open>iostate\<close> of its base
  class. \<open>iostate\<close> is a bitmask type: \<open>goodbit\<close> is the empty mask, \<open>badbit\<close>,
  \<open>eofbit\<close> and \<open>failbit\<close> are three distinct bits. A mask is modelled as the set of
  the bits that are on, so that \<open>|\<close> is \<open>\<union>\<close>.
\<close>

datatype iobit = Badbit | Eofbit | Failbit

type_synonym iostate = "iobit set"

definition goodbit :: iostate where "goodbit = {}"
definition badbit :: iostate where "badbit = {Badbit}"
definition eofbit :: iostate where "eofbit = {Eofbit}"
definition failbit :: iostate where "failbit = {Failbit}"

text \<open>
  The base object: its state, and whether a stream buffer is attached
  (\<open>rdbuf() != nullptr\<close>). \<open>Socket\<close> never calls \<open>init\<close> or \<open>rdbuf(sb)\<close>, so the
  buffer pointer is whatever the protected default constructor \<open>basic_ios()\<close> leaves
  there (null in libstdc++); every function below works for both values of the field.
  The exception mask is never touched by \<open>Socket\<close> and is taken to be empty, so
  \<open>clear\<close> never throws.
\<close>

record ios =
  rdstate :: iostate
  rdbuf :: bool

text \<open>
  \<open>void clear(iostate state)\<close>: afterwards \<open>rdstate() == state\<close> if a buffer is
  attached, and \<open>rdstate() == (state | badbit)\<close> otherwise.
  \<open>void setstate(iostate state)\<close> calls \<open>clear(rdstate() | state)\<close>.
\<close>

definition clear :: "iostate \<Rightarrow> 'a ios_scheme \<Rightarrow> 'a ios_scheme" where
  "clear state s = s\<lparr>rdstate := (if rdbuf s then state else state \<union> badbit)\<rparr>"

definition setstate :: "iostate \<Rightarrow> 'a ios_scheme \<Rightarrow> 'a ios_scheme" where
  "setstate state s = clear (rdstate s \<union> state) s"

definition good :: "'a ios_scheme \<Rightarrow> bool" where
  "good s = (rdstate s = goodbit)"

definition fail :: "'a ios_scheme \<Rightarrow> bool" where
  "fail s = (rdstate s \<inter> (failbit \<union> badbit) \<noteq> {})"

text \<open>\<open>operator bool\<close> is \<open>!fail()\<close> and \<open>operator!\<close> is \<open>fail()\<close>.\<close>

definition operator_bool :: "'a ios_scheme \<Rightarrow> bool" where
  "operator_bool s = (\<not> fail s)"

definition operator_not :: "'a ios_scheme \<Rightarrow> bool" where
  "operator_not s = fail s"

section \<open>The operating system\<close>

type_synonym in_port_t = "16 word"
type_synonym in_addr_t = "32 word"

record sockaddr_in =
  sin_family :: int
  sin_port :: in_port_t
  sin_addr :: in_addr_t

definition AF_INET :: int where "AF_INET = 2"
definition INADDR_LOOPBACK :: in_addr_t where "INADDR_LOOPBACK = 0x7f000001"

text \<open>The system calls \<open>Socket\<close> issues, with the arguments that vary.\<close>

datatype oscall =
    Sys_socket
  | Sys_setsockopt int
  | Sys_bind int sockaddr_in
  | Sys_listen int int
  | Sys_accept int
  | Sys_connect int sockaddr_in
  | Sys_close int
  | Sys_getsockopt int
  | Sys_read int int
  | Sys_write int string int
  | Sys_getsockname int
  | Sys_getpeername int

text \<open>
  What a call hands back: its return value, the value it leaves in \<open>errno\<close> (\<open>None\<close>
  when it does not touch \<open>errno\<close>), and the data it stores through a pointer argument.
\<close>

datatype outdata = NoData | Bytes string | OptVal int | SockAddr sockaddr_in

record reply =
  ret :: int
  err :: "int option"
  out :: outdata

text \<open>
  The world outside the object: the thread's \<open>errno\<close>, the calls issued so far (oldest
  first), the replies the operating system will give to the next calls, in order, and
  the three function-local \<open>static struct sockaddr_in st_addr\<close> of \<open>info\<close>,
  \<open>peerinfo\<close> and \<open>localinfo\<close>. A call for which no reply is left does not return
  (a blocking call that nothing ever answers): the result is \<open>None\<close>.
\<close>

record world =
  errno :: int
  calls :: "oscall list"
  pending :: "reply list"
  st_info :: sockaddr_in
  st_peerinfo :: sockaddr_in
  st_localinfo :: sockaddr_in

definition syscall :: "oscall \<Rightarrow> world \<Rightarrow> (reply \<times> world) option" where
  "syscall c w =
     (case pending w of
        [] \<Rightarrow> None
      | r # rs \<Rightarrow>
          Some (r, w\<lparr>errno := (case err r of None \<Rightarrow> errno w | Some e \<Rightarrow> e),
                      calls := calls w @ [c],
                      pending := rs\<rparr>))"

section \<open>The class \<open>Socket\<close>\<close>

text \<open>The members \<open>_sd\<close> and \<open>_errno\<close> (here \<open>sd\<close> and \<open>errno'\<close>), on top of the inherited stream
  state.\<close>

record Socket = ios +
  sd :: int
  errno' :: int

text \<open>\<open>close\<close> (lines 143 to 152).\<close>

definition close :: "Socket \<Rightarrow> world \<Rightarrow> (Socket \<times> world) option" where
  "close s w = do {
     (r, w1) \<leftarrow> syscall (Sys_close (sd s)) w;
     let s1 = (if ret r = -1 then setstate failbit s else setstate goodbit s);
     Some (s1\<lparr>sd := -1, errno' := errno w1\<rparr>, w1)
   }"

text \<open>\<open>isOpen\<close> (lines 157 to 160).\<close>

definition isOpen :: "Socket \<Rightarrow> bool" where
  "isOpen s = (sd s \<noteq> -1)"

text \<open>
  \<open>Socket(int sd)\<close> (lines 31 to 40). The first argument is the base subobject as
  \<open>basic_ios()\<close> leaves it; \<open>_errno\<close> starts at its default member initialiser 0.
\<close>

definition Socket_int :: "ios \<Rightarrow> int \<Rightarrow> world \<Rightarrow> (Socket \<times> world) option" where
  "Socket_int b sd0 w = do {
     let s0 = \<lparr>rdstate = rdstate b, rdbuf = rdbuf b, sd = sd0, errno' = 0\<rparr>;
     (r, w1) \<leftarrow> syscall (Sys_setsockopt sd0) w;
     let s1 = (if ret r = -1 then setstate failbit s0 else s0);
     (s2, w2) \<leftarrow> (if operator_not s1 then close s1 w1 else Some (s1, w1));
     Some (s2\<lparr>errno' := errno w2\<rparr>, w2)
   }"

text \<open>\<open>Socket()\<close> (lines 44 to 47) delegates to \<open>Socket(int)\<close> with the result of \<open>socket\<close>.\<close>

definition Socket_default :: "ios \<Rightarrow> world \<Rightarrow> (Socket \<times> world) option" where
  "Socket_default b w = do {
     (r, w1) \<leftarrow> syscall Sys_socket w;
     Socket_int b (ret r) w1
   }"

text \<open>
  \<open>Socket(const Socket &&other)\<close> (lines 48 to 51): the new object and the source
  afterwards. The parameter is a reference to const and \<open>std::move\<close> of an \<open>int\<close>
  copies it, so the source is returned as it was.
\<close>

definition Socket_move :: "ios \<Rightarrow> Socket \<Rightarrow> Socket \<times> Socket" where
  "Socket_move b other =
     (\<lparr>rdstate = rdstate b, rdbuf = rdbuf b, sd = sd other, errno' = 0\<rparr>, other)"

text \<open>\<open>~Socket\<close> (lines 52 to 56).\<close>

definition Socket_dtor :: "Socket \<Rightarrow> world \<Rightarrow> (Socket \<times> world) option" where
  "Socket_dtor s w = (if isOpen s then close s w else Some (s, w))"

text \<open>\<open>listen(in_port_t, in_addr_t, int)\<close> (lines 64 to 78).\<close>

definition listen :: "Socket \<Rightarrow> in_port_t \<Rightarrow> in_addr_t \<Rightarrow> int \<Rightarrow> world \<Rightarrow> (Socket \<times> world) option" where
  "listen s port addr count w = do {
     let st_addr = \<lparr>sin_family = AF_INET, sin_port = port, sin_addr = addr\<rparr>;
     (s1, w1) \<leftarrow>
       (if good s then do {
          (r, w') \<leftarrow> syscall (Sys_bind (sd s) st_addr) w;
          Some (if ret r = -1 then setstate failbit s else s, w')
        } else Some (s, w));
     (s2, w2) \<leftarrow>
       (if good s1 then do {
          (r, w') \<leftarrow> syscall (Sys_listen (sd s1) count) w1;
          Some (if ret r = -1 then setstate failbit s1 else s1, w')
        } else Some (s1, w1));
     Some (s2\<lparr>errno' := errno w2\<rparr>, w2)
   }"

text \<open>\<open>connect(in_port_t, in_addr_t)\<close> (lines 114 to 126).\<close>

definition connect :: "Socket \<Rightarrow> in_port_t \<Rightarrow> in_addr_t \<Rightarrow> world \<Rightarrow> (Socket \<times> world) option" where
  "connect s port addr w = do {
     let st_addr = \<lparr>sin_family = AF_INET, sin_port = port, sin_addr = addr\<rparr>;
     (s1, w1) \<leftarrow>
       (if good s then do {
          (r, w') \<leftarrow> syscall (Sys_connect (sd s) st_addr) w;
          Some (if ret r = -1 then setstate failbit s else s, w')
        } else Some (s, w));
     Some (s1\<lparr>errno' := errno w1\<rparr>, w1)
   }"

subsection \<open>Text to address\<close>

text \<open>
  \<open>inet_pton(AF_INET, src, dst)\<close> belongs to the C library, not to this repository.
  It is modelled after glibc's, which follows POSIX: the text must be four fields
  separated by dots, each field a decimal number between 0 and 255 written without a
  superfluous leading zero; then the four bytes are stored through \<open>dst\<close> in that
  order and the result is 1. For any other text the result is 0 and \<open>dst\<close> is left
  alone. The result -1 is reserved for an unsupported address family, which \<open>AF_INET\<close>
  is not. An \<open>in_addr_t\<close> is the 32-bit number a little-endian host (x86-64) reads
  from those four bytes: the first field is the least significant byte.
\<close>

fun split_dots :: "string \<Rightarrow> string list" where
  "split_dots [] = [[]]"
| "split_dots (c # cs) =
     (if c = CHR ''.'' then [] # split_dots cs
      else (case split_dots cs of [] \<Rightarrow> [[c]] | p # ps \<Rightarrow> (c # p) # ps))"

definition is_digit :: "char \<Rightarrow> bool" where
  "is_digit c = (48 \<le> (of_char c :: nat) \<and> (of_char c :: nat) \<le> 57)"

definition octet :: "string \<Rightarrow> nat option" where
  "octet ds =
     (if ds \<noteq> [] \<and> list_all is_digit ds \<and> \<not> (1 < length ds \<and> hd ds = CHR ''0'')
      then (let n = foldl (\<lambda>a d. 10 * a + (of_char d - 48)) 0 ds
            in if n \<le> 255 then Some n else None)
      else None)"

definition inet_pton :: "string \<Rightarrow> in_addr_t \<Rightarrow> int \<times> in_addr_t" where
  "inet_pton src dst =
     (case map octet (split_dots src) of
        [Some a, Some b, Some c, Some d] \<Rightarrow>
          (1, word_of_nat (a + 256 * (b + 256 * (c + 256 * d))))
      | _ \<Rightarrow> (0, dst))"

text \<open>
  \<open>strToAddr\<close> (lines 275 to 282): the \<open>bool\<close> it returns and the value of \<open>*buffer\<close>
  afterwards. The local \<open>st_addr\<close> is zero-initialised before \<open>inet_pton\<close> sees it.
\<close>

definition strToAddr :: "string \<Rightarrow> in_addr_t \<Rightarrow> bool \<times> in_addr_t" where
  "strToAddr addrstr buffer =
     (let (r, s_addr) = inet_pton addrstr 0
      in if r = -1 then (False, buffer) else (True, s_addr))"

text \<open>The overloads taking the address as text (lines 85 to 91 and 132 to 138).\<close>

definition listen_str :: "Socket \<Rightarrow> in_port_t \<Rightarrow> string \<Rightarrow> int \<Rightarrow> world \<Rightarrow> (Socket \<times> world) option" where
  "listen_str s port addrstr count w =
     (let (ok, addr) = strToAddr addrstr 0;
          s1 = (if ok = False then setstate failbit s else s)
      in listen s1 port addr count w)"

definition connect_str :: "Socket \<Rightarrow> in_port_t \<Rightarrow> string \<Rightarrow> world \<Rightarrow> (Socket \<times> world) option" where
  "connect_str s port addrstr w =
     (let (ok, addr) = strToAddr addrstr 0;
          s1 = (if ok = False then setstate failbit s else s)
      in connect s1 port addr w)"

subsection \<open>Accepting, diagnostics, input and output\<close>

text \<open>
  \<open>accept\<close> (lines 97 to 107): the returned object, then the receiver afterwards. The
  returned object is the \<open>Socket(peersd)\<close> of the return statement itself (the
  temporary is not copied or moved: copy elision).
\<close>

definition accept :: "ios \<Rightarrow> Socket \<Rightarrow> world \<Rightarrow> (Socket \<times> Socket \<times> world) option" where
  "accept b s w = do {
     (peersd, w1) \<leftarrow>
       (if good s then do {
          (r, w') \<leftarrow> syscall (Sys_accept (sd s)) w;
          Some (ret r, w')
        } else Some (-1, w));
     let s1 = s\<lparr>errno' := errno w1\<rparr>;
     (peer, w2) \<leftarrow> Socket_int b peersd w1;
     Some (peer, s1, w2)
   }"

text \<open>\<open>errcode\<close> (lines 166 to 177) and \<open>strerror\<close> (lines 181 to 184); \<open>describe\<close>
  stands for the C library's \<open>::strerror\<close>.\<close>

definition errcode :: "Socket \<Rightarrow> world \<Rightarrow> (int \<times> Socket \<times> world) option" where
  "errcode s w =
     (if errno' s \<noteq> 0 then Some (errno' s, s, w)
      else do {
        (r, w1) \<leftarrow> syscall (Sys_getsockopt (sd s)) w;
        let optval = (case out r of OptVal v \<Rightarrow> v | _ \<Rightarrow> 0);
        let s1 = (if ret r = -1 then setstate failbit s else s);
        Some (optval, s1\<lparr>errno' := optval\<rparr>, w1)
      })"

definition strerror :: "(int \<Rightarrow> string) \<Rightarrow> Socket \<Rightarrow> world \<Rightarrow> (string \<times> Socket \<times> world) option" where
  "strerror describe s w = do {
     (e, s1, w1) \<leftarrow> errcode s w;
     Some (describe e, s1, w1)
   }"

text \<open>
  \<open>read\<close> (lines 191 to 200): the caller's buffer afterwards, then the object, which is
  also what the returned reference \<open>*this\<close> denotes. The operating system overwrites
  the first \<open>rdsize\<close> bytes of the buffer when \<open>rdsize\<close> is positive.
\<close>

definition store :: "string \<Rightarrow> string \<Rightarrow> string" where
  "store bs buffer = bs @ drop (length bs) buffer"

definition read :: "Socket \<Rightarrow> string \<Rightarrow> int \<Rightarrow> world \<Rightarrow> (string \<times> Socket \<times> world) option" where
  "read s buffer len w = do {
     (r, w1) \<leftarrow> syscall (Sys_read (sd s) len) w;
     let rdsize = ret r;
     let buffer1 = (case out r of Bytes bs \<Rightarrow> store (take (nat rdsize) bs) buffer | _ \<Rightarrow> buffer);
     let s1 = s\<lparr>errno' := errno w1\<rparr>;
     let s2 = (if rdsize = 0 \<and> len > 0 then setstate eofbit s1 else s1);
     let s3 = (if rdsize = -1 then setstate badbit s2 else s2);
     Some (buffer1, s3, w1)
   }"

text \<open>\<open>write\<close> (lines 221 to 228); the name \<open>write\<close> is taken by Isar.\<close>

definition write_sock :: "Socket \<Rightarrow> string \<Rightarrow> int \<Rightarrow> world \<Rightarrow> (Socket \<times> world) option" where
  "write_sock s buffer len w = do {
     (r, w1) \<leftarrow> syscall (Sys_write (sd s) buffer len) w;
     let wrsize = ret r;
     let s1 = s\<lparr>errno' := errno w1\<rparr>;
     Some (if (wrsize = 0 \<and> len > 0) \<or> wrsize = -1 then setstate badbit s1 else s1, w1)
   }"

text \<open>\<open>info\<close>, \<open>peerinfo\<close> and \<open>localinfo\<close> (lines 233 to 267): the contents of the
  static \<open>st_addr\<close> the returned reference denotes, then the object. \<open>localinfo\<close>
  builds the local \<open>Socket local\<close> and destroys it when it returns.\<close>

definition info :: "Socket \<Rightarrow> world \<Rightarrow> (sockaddr_in \<times> Socket \<times> world) option" where
  "info s w = do {
     (r, w1) \<leftarrow> syscall (Sys_getsockname (sd s)) w;
     let w2 = w1\<lparr>st_info := (case out r of SockAddr a \<Rightarrow> a | _ \<Rightarrow> st_info w1)\<rparr>;
     let s1 = (if ret r = -1 then setstate failbit s else s);
     Some (st_info w2, s1, w2)
   }"

definition peerinfo :: "Socket \<Rightarrow> world \<Rightarrow> (sockaddr_in \<times> Socket \<times> world) option" where
  "peerinfo s w = do {
     (r, w1) \<leftarrow> syscall (Sys_getpeername (sd s)) w;
     let w2 = w1\<lparr>st_peerinfo := (case out r of SockAddr a \<Rightarrow> a | _ \<Rightarrow> st_peerinfo w1)\<rparr>;
     let s1 = (if ret r = -1 then setstate failbit s else s);
     Some (st_peerinfo w2, s1, w2)
   }"

definition localinfo :: "ios \<Rightarrow> Socket \<Rightarrow> world \<Rightarrow> (sockaddr_in \<times> Socket \<times> world) option" where
  "localinfo b s w = do {
     (local, w1) \<leftarrow> Socket_default b w;
     (local1, w2) \<leftarrow> connect local 0 INADDR_LOOPBACK w1;
     (r, w3) \<leftarrow> syscall (Sys_getsockname (sd local1)) w2;
     let w4 = w3\<lparr>st_localinfo := (case out r of SockAddr a \<Rightarrow> a | _ \<Rightarrow> st_localinfo w3)\<rparr>;
     let s1 = (if ret r = -1 then setstate failbit s else s);
     (local2, w5) \<leftarrow> Socket_dtor local1 w4;
     Some (st_localinfo w5, s1, w5)
   }"

subsection \<open>\<open>getline\<close>\<close>

text \<open>
  The \<open>while\<close> loop of \<open>getline\<close> (lines 209 and 210), from the values of \<open>c\<close> and
  \<open>buffer\<close> before an iteration to the object, \<open>c\<close> and \<open>buffer\<close> when the loop is
  left. \<open>read(&c, 1)\<close> reads into the one-byte buffer \<open>c\<close>; its result converts to
  \<open>bool\<close> through \<open>operator bool\<close>. Every \<open>read\<close> that returns has used up one
  reply, which bounds the loop.
\<close>

function getline_loop :: "Socket \<Rightarrow> char \<Rightarrow> string \<Rightarrow> char \<Rightarrow> world \<Rightarrow> (Socket \<times> char \<times> string \<times> world) option" where
  "getline_loop s c buffer delim w =
     (case read s [c] 1 w of
        None \<Rightarrow> None
      | Some (cbuf, s1, w1) \<Rightarrow>
          (let c1 = (case cbuf of [] \<Rightarrow> c | x # _ \<Rightarrow> x)
           in if operator_bool s1 \<and> c1 \<noteq> delim \<and> c1 \<noteq> CHR 0x00
              then getline_loop s1 c1 (buffer @ [c1]) delim w1
              else Some (s1, c1, buffer, w1)))"
  by pat_completeness auto
termination
proof (relation "measure (\<lambda>(s, c, buffer, delim, w). length (pending w))")
  show "wf (measure (\<lambda>(s, c, buffer, delim, w). length (pending w)))" by simp
next
  fix s c buffer w x2 cbuf y s1 w1 c1 and delim :: char
  assume "read s [c] 1 w = Some x2" "(cbuf, y) = x2" "(s1, w1) = y"
  then have "read s [c] 1 w = Some (cbuf, s1, w1)" by simp
  then have "length (pending w1) < length (pending w)"
    unfolding read_def syscall_def by (cases "pending w") (auto simp: Let_def)
  then show "((s1, c1, buffer @ [c1], delim, w1), s, c, buffer, delim, w)
        \<in> measure (\<lambda>(s, c, buffer, delim, w). length (pending w))" by simp
qed

declare getline_loop.simps [simp del]

text \<open>
  \<open>getline\<close> (lines 205 to 214): \<open>c\<close> starts as the byte \<open>-1\<close>, the buffer is cleared,
  the loop runs, and when it leaves with \<open>c == '\0'\<close> the function calls itself on the
  same buffer. The results are the object, which the returned reference \<open>*this\<close>
  denotes, and the caller's buffer. The loop has read at least once when it is left,
  which bounds the recursion.
\<close>

function getline :: "Socket \<Rightarrow> string \<Rightarrow> char \<Rightarrow> world \<Rightarrow> (Socket \<times> string \<times> world) option" where
  "getline s buffer delim w =
     (case getline_loop s (CHR 0xFF) [] delim w of
        None \<Rightarrow> None
      | Some (s1, c, buffer1, w1) \<Rightarrow>
          if c = CHR 0x00 then getline s1 buffer1 delim w1 else Some (s1, buffer1, w1))"
  by pat_completeness auto
termination
proof (relation "measure (\<lambda>(s, buffer, delim, w). length (pending w))")
  show "wf (measure (\<lambda>(s, buffer, delim, w). length (pending w)))" by simp
next
  fix s w x2 s1 y c z buffer1 w1 and buffer :: string and delim :: char
  assume "getline_loop s (CHR 0xFF) [] delim w = Some x2" "(s1, y) = x2" "(c, z) = y"
    "(buffer1, w1) = z"
  then have lp: "getline_loop s (CHR 0xFF) [] delim w = Some (s1, c, buffer1, w1)" by simp
  have shorter: "getline_loop s0 c0 b0 d0 w0 = Some (s9, c9, b9, w9) \<Longrightarrow>
      length (pending w9) < length (pending w0)" for s0 c0 b0 d0 w0 s9 c9 b9 w9
  proof (induction s0 c0 b0 d0 w0 rule: getline_loop.induct)
    case (1 s c buffer delim w)
    from "1.prems" obtain cbuf s2 w2 where rd: "read s [c] 1 w = Some (cbuf, s2, w2)"
      by (subst (asm) getline_loop.simps) (auto split: option.splits)
    define c2 where "c2 = (case cbuf of [] \<Rightarrow> c | x # _ \<Rightarrow> x)"
    from rd have lt: "length (pending w2) < length (pending w)"
      unfolding read_def syscall_def by (cases "pending w") (auto simp: Let_def)
    show ?case
    proof (cases "operator_bool s2 \<and> c2 \<noteq> delim \<and> c2 \<noteq> CHR 0x00")
      case True
      with "1.prems" rd
      have "getline_loop s2 c2 (buffer @ [c2]) delim w2 = Some (s9, c9, b9, w9)"
        by (subst (asm) getline_loop.simps) (simp add: c2_def Let_def)
      from "1.IH" [OF rd refl refl c2_def True this] lt show ?thesis by simp
    next
      case False
      with "1.prems" rd have "w9 = w2"
        by (subst (asm) getline_loop.simps) (auto simp: c2_def Let_def)
      with lt show ?thesis by simp
    qed
  qed
  from shorter [OF lp]
  show "((s1, buffer1, delim, w1), s, buffer, delim, w)
        \<in> measure (\<lambda>(s, buffer, delim, w). length (pending w))" by simp
qed

declare getline.simps [simp del]

subsection \<open>Sequences of calls on one object\<close>

text \<open>The member functions a caller can invoke on a \<open>Socket\<close>, with their arguments.\<close>

datatype op =
    Op_listen in_port_t in_addr_t int
  | Op_listen_str in_port_t string int
  | Op_accept
  | Op_connect in_port_t in_addr_t
  | Op_connect_str in_port_t string
  | Op_close
  | Op_isOpen
  | Op_errcode
  | Op_strerror
  | Op_read string int
  | Op_getline string char
  | Op_write string int
  | Op_info
  | Op_peerinfo
  | Op_localinfo

text \<open>One call on the object as an expression statement, keeping the object and the
  world and dropping what the call returns; the \<open>Socket\<close> that \<open>accept\<close> returns is
  a temporary, destroyed at the end of the statement. \<open>b\<close> is the base subobject of
  the objects the call constructs.\<close>

fun step :: "ios \<Rightarrow> (int \<Rightarrow> string) \<Rightarrow> op \<Rightarrow> Socket \<Rightarrow> world \<Rightarrow> (Socket \<times> world) option" where
  "step b d (Op_listen port addr count) s w = listen s port addr count w"
| "step b d (Op_listen_str port addrstr count) s w = listen_str s port addrstr count w"
| "step b d Op_accept s w = do {
     (peer, s1, w1) \<leftarrow> accept b s w;
     (peer1, w2) \<leftarrow> Socket_dtor peer w1;
     Some (s1, w2)
   }"
| "step b d (Op_connect port addr) s w = connect s port addr w"
| "step b d (Op_connect_str port addrstr) s w = connect_str s port addrstr w"
| "step b d Op_close s w = close s w"
| "step b d Op_isOpen s w = Some (s, w)"
| "step b d Op_errcode s w = map_option snd (errcode s w)"
| "step b d Op_strerror s w = map_option snd (strerror d s w)"
| "step b d (Op_read buffer len) s w = map_option snd (read s buffer len w)"
| "step b d (Op_getline buffer delim) s w =
     map_option (\<lambda>(s1, buffer1, w1). (s1, w1)) (getline s buffer delim w)"
| "step b d (Op_write buffer len) s w = write_sock s buffer len w"
| "step b d Op_info s w = map_option snd (info s w)"
| "step b d Op_peerinfo s w = map_option snd (peerinfo s w)"
| "step b d Op_localinfo s w = map_option snd (localinfo b s w)"

fun run :: "ios \<Rightarrow> (int \<Rightarrow> string) \<Rightarrow> op list \<Rightarrow> Socket \<Rightarrow> world \<Rightarrow> (Socket \<times> world) option" where
  "run b d [] s w = Some (s, w)"
| "run b d (x # xs) s w =
     (case step b d x s w of None \<Rightarrow> None | Some (s1, w1) \<Rightarrow> run b d xs s1 w1)"

section \<open>Auxiliary definitions\<close>

text \<open>A world in which nothing has happened yet and the operating system will answer
  with the given replies; a call that succeeds with a result, one that fails with an
  error number, and a one-byte \<open>read\<close> that delivers a byte.\<close>

definition no_addr :: sockaddr_in where
  "no_addr = \<lparr>sin_family = 0, sin_port = 0, sin_addr = 0\<rparr>"

definition world_of :: "reply list \<Rightarrow> world" where
  "world_of rs = \<lparr>errno = 0, calls = [], pending = rs,
     st_info = no_addr, st_peerinfo = no_addr, st_localinfo = no_addr\<rparr>"

definition os_ok :: "int \<Rightarrow> reply" where
  "os_ok n = \<lparr>ret = n, err = None, out = NoData\<rparr>"

definition os_error :: "int \<Rightarrow> reply" where
  "os_error e = \<lparr>ret = -1, err = Some e, out = NoData\<rparr>"

definition byte :: "char \<Rightarrow> reply" where
  "byte c = \<lparr>ret = 1, err = None, out = Bytes [c]\<rparr>"

text \<open>\<open>keeps s s1\<close>: every status bit of \<open>s\<close> is still set in \<open>s1\<close>, and the stream
  buffer pointer is the same.\<close>

definition keeps :: "Socket \<Rightarrow> Socket \<Rightarrow> bool" where
  "keeps s s1 = (rdstate s \<subseteq> rdstate s1 \<and> rdbuf s1 = rdbuf s)"

section \<open>Basic facts\<close>

lemma setstate_fields [simp]:
  "rdstate (setstate st s) = (if rdbuf s then rdstate s \<union> st else rdstate s \<union> st \<union> badbit)"
  "rdbuf (setstate st s) = rdbuf s"
  by (simp_all add: setstate_def clear_def)

lemma setstate_Socket_fields [simp]:
  "sd (setstate st s) = sd s" "errno' (setstate st s) = errno' s"
  by (simp_all add: setstate_def clear_def)

text \<open>\<open>inet_pton\<close> never answers -1 for \<open>AF_INET\<close>, so \<open>strToAddr\<close> never returns false.\<close>

lemma inet_pton_ret: "fst (inet_pton src dst) \<noteq> -1"
  by (auto simp: inet_pton_def split: list.splits option.splits)

lemma strToAddr_never_false: "fst (strToAddr addrstr buffer)"
  using inet_pton_ret [of addrstr 0]
  by (auto simp: strToAddr_def split: prod.splits)

section \<open>Calls on a socket that has failed (C1)\<close>

text \<open>
  C1 says that on a socket with \<open>failbit\<close> or \<open>badbit\<close> set, \<open>listen\<close>, \<open>connect\<close> and
  \<open>read\<close> issue no operating system call and leave the status alone, and that \<open>read\<close>
  calls \<open>::read\<close> only when neither \<open>eofbit\<close> nor \<open>badbit\<close> is set. \<open>read\<close> has no
  such test: on a socket whose status is \<open>badbit\<close>, it calls \<open>::read\<close>, and when that
  returns 0 it adds \<open>eofbit\<close> to the status.
\<close>

theorem read_ignores_status:
  "read \<lparr>rdstate = badbit, rdbuf = True, sd = 3, errno' = 0\<rparr> ''x'' 1 (world_of [os_ok 0])
     = Some (''x'', \<lparr>rdstate = badbit \<union> eofbit, rdbuf = True, sd = 3, errno' = 0\<rparr>,
             (world_of [])\<lparr>calls := [Sys_read 3 1]\<rparr>)"
  by (simp add: read_def syscall_def world_of_def os_ok_def Un_commute)

text \<open>
  C1 as amended: on a socket with \<open>failbit\<close> or \<open>badbit\<close> set, \<open>listen\<close> and \<open>connect\<close>
  (both overloads of each) issue no operating system call and change nothing but the
  saved error number, which is refreshed from \<open>errno\<close>. \<open>read\<close> calls \<open>::read\<close> once
  whatever the status is, and no bit that was set is cleared by it.
\<close>

theorem failed_socket_calls:
  "(fail s \<longrightarrow> listen s port addr count w = Some (s\<lparr>errno' := errno w\<rparr>, w))
   \<and> (fail s \<longrightarrow> listen_str s port addrstr count w = Some (s\<lparr>errno' := errno w\<rparr>, w))
   \<and> (fail s \<longrightarrow> connect s port addr w = Some (s\<lparr>errno' := errno w\<rparr>, w))
   \<and> (fail s \<longrightarrow> connect_str s port addrstr w = Some (s\<lparr>errno' := errno w\<rparr>, w))
   \<and> (pending w = r # rs \<longrightarrow>
        (\<exists>buffer1 s1 w1. read s buffer len w = Some (buffer1, s1, w1)
           \<and> calls w1 = calls w @ [Sys_read (sd s) len]
           \<and> rdstate s \<subseteq> rdstate s1))"
proof -
  have a: "fail s \<Longrightarrow> listen s port addr count w = Some (s\<lparr>errno' := errno w\<rparr>, w)" for addr
    by (auto simp: listen_def good_def fail_def goodbit_def)
  have b: "fail s \<Longrightarrow> connect s port addr w = Some (s\<lparr>errno' := errno w\<rparr>, w)" for addr
    by (auto simp: connect_def good_def fail_def goodbit_def)
  have c: "strToAddr addrstr 0 = (True, snd (strToAddr addrstr 0))"
    using strToAddr_never_false [of addrstr 0] by (cases "strToAddr addrstr 0") simp
  have d: "fail s \<Longrightarrow> listen_str s port addrstr count w = Some (s\<lparr>errno' := errno w\<rparr>, w)"
    by (subst listen_str_def, subst c) (simp add: a)
  have e: "fail s \<Longrightarrow> connect_str s port addrstr w = Some (s\<lparr>errno' := errno w\<rparr>, w)"
    by (subst connect_str_def, subst c) (simp add: b)
  have f: "pending w = r # rs \<Longrightarrow>
        (\<exists>buffer1 s1 w1. read s buffer len w = Some (buffer1, s1, w1)
           \<and> calls w1 = calls w @ [Sys_read (sd s) len]
           \<and> rdstate s \<subseteq> rdstate s1)"
    by (auto simp: read_def syscall_def Let_def)
  from a b d e f show ?thesis by blast
qed

theorem failed_socket_calls_witness:
  "listen \<lparr>rdstate = failbit, rdbuf = True, sd = 3, errno' = 0\<rparr> 80 0 5 (world_of [os_ok 0])
     = Some (\<lparr>rdstate = failbit, rdbuf = True, sd = 3, errno' = 0\<rparr>, world_of [os_ok 0])
   \<and> connect_str \<lparr>rdstate = badbit, rdbuf = True, sd = 3, errno' = 0\<rparr> 80 ''127.0.0.1''
       (world_of [os_ok 0])
     = Some (\<lparr>rdstate = badbit, rdbuf = True, sd = 3, errno' = 0\<rparr>, world_of [os_ok 0])
   \<and> (\<exists>buffer1 s1 w1.
        read \<lparr>rdstate = failbit, rdbuf = True, sd = 3, errno' = 0\<rparr> ''x'' 1 (world_of [byte CHR ''a''])
          = Some (buffer1, s1, w1)
        \<and> calls w1 = [Sys_read 3 1] \<and> failbit \<subseteq> rdstate s1)"
  using failed_socket_calls [where s = "\<lparr>rdstate = failbit, rdbuf = True, sd = 3, errno' = 0\<rparr>"
          and port = 80 and addr = 0 and count = 5 and w = "world_of [os_ok 0]"]
        failed_socket_calls [where s = "\<lparr>rdstate = badbit, rdbuf = True, sd = 3, errno' = 0\<rparr>"
          and port = 80 and addrstr = "''127.0.0.1''" and w = "world_of [os_ok 0]"]
        failed_socket_calls [where s = "\<lparr>rdstate = failbit, rdbuf = True, sd = 3, errno' = 0\<rparr>"
          and w = "world_of [byte CHR ''a'']" and r = "byte CHR ''a''" and rs = "[]"
          and buffer = "''x''" and len = 1]
  by (auto simp: world_of_def os_ok_def byte_def fail_def failbit_def badbit_def)

section \<open>\<open>close\<close> and the status (C2)\<close>

text \<open>What a \<open>close\<close> whose \<open>::close\<close> succeeds does to the status: nothing when a
  stream buffer is attached, and it adds \<open>badbit\<close> when none is.\<close>

lemma close_success_status:
  assumes "pending w = r # rs" and "ret r \<noteq> -1"
  shows "\<exists>s1 w1. close s w = Some (s1, w1)
           \<and> rdstate s1 = (if rdbuf s then rdstate s else rdstate s \<union> badbit)"
  using assms by (auto simp: close_def syscall_def goodbit_def)

text \<open>
  C2 says that a \<open>close\<close> whose operating system call succeeds leaves the status
  exactly good, whatever bits were set before. The success branch calls
  \<open>setstate(goodbit)\<close>, and \<open>setstate\<close> only ever adds bits: with \<open>failbit\<close> set
  before and a \<open>::close\<close> that returns 0, \<open>failbit\<close> is still set afterwards (and
  \<open>badbit\<close> is added when the object has no stream buffer).
\<close>

theorem close_success_keeps_failbit:
  "close \<lparr>rdstate = failbit, rdbuf = True, sd = 3, errno' = 0\<rparr> (world_of [os_ok 0])
     = Some (\<lparr>rdstate = failbit, rdbuf = True, sd = -1, errno' = 0\<rparr>,
             (world_of [])\<lparr>calls := [Sys_close 3]\<rparr>)
   \<and> close \<lparr>rdstate = failbit, rdbuf = False, sd = 3, errno' = 0\<rparr> (world_of [os_ok 0])
     = Some (\<lparr>rdstate = failbit \<union> badbit, rdbuf = False, sd = -1, errno' = 0\<rparr>,
             (world_of [])\<lparr>calls := [Sys_close 3]\<rparr>)"
  by (simp add: close_def syscall_def world_of_def os_ok_def goodbit_def)

section \<open>\<open>getline\<close> and the null byte (C3)\<close>

text \<open>Reading one byte on a socket that has not failed, and the loop over a run of
  bytes that ends with the delimiter or a null byte.\<close>

lemma read_byte:
  assumes "\<not> fail s" and "pending w = byte x # rest"
  shows "read s [c] 1 w = Some ([x], s\<lparr>errno' := errno w\<rparr>,
           w\<lparr>calls := calls w @ [Sys_read (sd s) 1], pending := rest\<rparr>)"
  using assms by (simp add: read_def syscall_def byte_def store_def)

lemma getline_loop_bytes:
  assumes "\<not> fail s" and "pending w = map byte ys @ byte d # rest"
    and "delim \<notin> set ys" and "CHR 0x00 \<notin> set ys" and "d = delim \<or> d = CHR 0x00"
  shows "\<exists>s1 w1. getline_loop s c buffer delim w = Some (s1, d, buffer @ ys, w1)
           \<and> \<not> fail s1 \<and> pending w1 = rest"
  using assms
proof (induction ys arbitrary: s c buffer w)
  case Nil
  then have "read s [c] 1 w = Some ([d], s\<lparr>errno' := errno w\<rparr>,
           w\<lparr>calls := calls w @ [Sys_read (sd s) 1], pending := rest\<rparr>)"
    by (simp add: read_byte)
  with Nil show ?case
    by (subst getline_loop.simps) (auto simp: fail_def)
next
  case (Cons y ys)
  let ?s = "s\<lparr>errno' := errno w\<rparr>"
  let ?w = "w\<lparr>calls := calls w @ [Sys_read (sd s) 1], pending := map byte ys @ byte d # rest\<rparr>"
  from Cons.prems have rd: "read s [c] 1 w = Some ([y], ?s, ?w)"
    by (simp add: read_byte)
  from Cons.prems have ok: "\<not> fail ?s" by (simp add: fail_def)
  from Cons.prems have "\<exists>s1 w1. getline_loop ?s y (buffer @ [y]) delim ?w
                           = Some (s1, d, (buffer @ [y]) @ ys, w1) \<and> \<not> fail s1 \<and> pending w1 = rest"
    by (intro Cons.IH [OF ok]) auto
  with Cons.prems rd ok show ?case
    by (subst getline_loop.simps) (auto simp: operator_bool_def)
qed

text \<open>
  C3 says that when the loop of \<open>getline\<close> stops on a null byte, the bytes read before
  it are kept and the recursive call goes on appending to them. The recursive call is
  \<open>getline\<close> itself, which begins with \<open>buffer.clear()\<close>: on the input
  \<open>a b \0 c d \n\<close> the caller gets \<open>cd\<close>, not \<open>abcd\<close>.
\<close>

theorem getline_drops_bytes_before_null:
  "getline \<lparr>rdstate = goodbit, rdbuf = False, sd = 3, errno' = 0\<rparr> [] (CHR 0x0A)
     (world_of (map byte [CHR ''a'', CHR ''b'', CHR 0x00, CHR ''c'', CHR ''d'', CHR 0x0A]))
   = Some (\<lparr>rdstate = goodbit, rdbuf = False, sd = 3, errno' = 0\<rparr>, ''cd'',
           (world_of [])\<lparr>calls := replicate 6 (Sys_read 3 1)\<rparr>)"
  by (simp add: getline.simps getline_loop.simps read_def syscall_def world_of_def byte_def
        store_def operator_bool_def fail_def goodbit_def failbit_def badbit_def numeral_eq_Suc)

text \<open>
  C3 as amended: in every call of \<open>getline\<close> whose loop stops because a null byte was
  read, the recursive call starts again from an empty buffer, so the bytes gathered
  before the null byte are discarded: whatever those bytes were and whatever the
  caller's buffer held, the call returns what a fresh \<open>getline\<close> returns on the object
  and the input as they stand after the null byte.
\<close>

theorem getline_restarts_after_null:
  assumes "getline_loop s (CHR 0xFF) [] delim w = Some (s1, CHR 0x00, b1, w1)"
  shows "getline s buffer delim w = getline s1 [] delim w1"
proof -
  from assms have "getline s buffer delim w = getline s1 b1 delim w1"
    by (subst getline.simps) simp
  also have "getline s1 b1 delim w1 = getline s1 [] delim w1"
    by (subst getline.simps, subst (2) getline.simps) (rule refl)
  finally show ?thesis .
qed

theorem getline_restarts_after_null_witness:
  "getline_loop \<lparr>rdstate = goodbit, rdbuf = False, sd = 3, errno' = 0\<rparr> (CHR 0xFF) [] (CHR 0x0A)
     (world_of (map byte [CHR ''a'', CHR 0x00, CHR ''b'', CHR 0x00, CHR ''c'', CHR 0x0A]))
   = Some (\<lparr>rdstate = goodbit, rdbuf = False, sd = 3, errno' = 0\<rparr>, CHR 0x00, ''a'',
           (world_of (map byte [CHR ''b'', CHR 0x00, CHR ''c'', CHR 0x0A]))
             \<lparr>calls := [Sys_read 3 1, Sys_read 3 1]\<rparr>)
   \<and> getline \<lparr>rdstate = goodbit, rdbuf = False, sd = 3, errno' = 0\<rparr> ''zz'' (CHR 0x0A)
       (world_of (map byte [CHR ''a'', CHR 0x00, CHR ''b'', CHR 0x00, CHR ''c'', CHR 0x0A]))
     = getline \<lparr>rdstate = goodbit, rdbuf = False, sd = 3, errno' = 0\<rparr> [] (CHR 0x0A)
         ((world_of (map byte [CHR ''b'', CHR 0x00, CHR ''c'', CHR 0x0A]))
            \<lparr>calls := [Sys_read 3 1, Sys_read 3 1]\<rparr>)
   \<and> getline \<lparr>rdstate = goodbit, rdbuf = False, sd = 3, errno' = 0\<rparr> ''zz'' (CHR 0x0A)
       (world_of (map byte [CHR ''a'', CHR 0x00, CHR ''b'', CHR 0x00, CHR ''c'', CHR 0x0A]))
     = Some (\<lparr>rdstate = goodbit, rdbuf = False, sd = 3, errno' = 0\<rparr>, ''c'',
             (world_of [])\<lparr>calls := replicate 6 (Sys_read 3 1)\<rparr>)"
proof -
  have l: "getline_loop \<lparr>rdstate = goodbit, rdbuf = False, sd = 3, errno' = 0\<rparr> (CHR 0xFF) [] (CHR 0x0A)
     (world_of (map byte [CHR ''a'', CHR 0x00, CHR ''b'', CHR 0x00, CHR ''c'', CHR 0x0A]))
   = Some (\<lparr>rdstate = goodbit, rdbuf = False, sd = 3, errno' = 0\<rparr>, CHR 0x00, ''a'',
           (world_of (map byte [CHR ''b'', CHR 0x00, CHR ''c'', CHR 0x0A]))
             \<lparr>calls := [Sys_read 3 1, Sys_read 3 1]\<rparr>)"
    by (simp add: getline_loop.simps read_def syscall_def world_of_def byte_def
          store_def operator_bool_def fail_def goodbit_def failbit_def badbit_def)
  have r: "getline \<lparr>rdstate = goodbit, rdbuf = False, sd = 3, errno' = 0\<rparr> [] (CHR 0x0A)
         ((world_of (map byte [CHR ''b'', CHR 0x00, CHR ''c'', CHR 0x0A]))
            \<lparr>calls := [Sys_read 3 1, Sys_read 3 1]\<rparr>)
     = Some (\<lparr>rdstate = goodbit, rdbuf = False, sd = 3, errno' = 0\<rparr>, ''c'',
             (world_of [])\<lparr>calls := replicate 6 (Sys_read 3 1)\<rparr>)"
    by (simp add: getline.simps getline_loop.simps read_def syscall_def world_of_def byte_def
          store_def operator_bool_def fail_def goodbit_def failbit_def badbit_def numeral_eq_Suc)
  from getline_restarts_after_null [OF l, of "''zz''"] l r show ?thesis by simp
qed

text \<open>
  A consequence on one shape of input. If the socket has not failed and the bytes that
  arrive are \<open>xs\<close>, a null byte, \<open>ys\<close> and the delimiter, where the delimiter is not
  the null byte and neither \<open>xs\<close> nor \<open>ys\<close> contains the delimiter or a null byte, then
  \<open>getline\<close> returns with the buffer equal to \<open>ys\<close>, having consumed exactly those
  bytes.
\<close>

lemma getline_returns_bytes_after_null:
  assumes "\<not> fail s"
    and "pending w = map byte (xs @ [CHR 0x00] @ ys @ [delim]) @ rest"
    and "delim \<noteq> CHR 0x00"
    and "delim \<notin> set xs" and "CHR 0x00 \<notin> set xs"
    and "delim \<notin> set ys" and "CHR 0x00 \<notin> set ys"
  shows "\<exists>s1 w1. getline s buffer delim w = Some (s1, ys, w1) \<and> pending w1 = rest"
proof -
  from assms(2) have p1: "pending w = map byte xs @ byte (CHR 0x00) # (map byte ys @ byte delim # rest)"
    by simp
  from getline_loop_bytes [OF assms(1) p1 assms(4) assms(5), of "CHR 0xFF" "[]"]
  obtain s1 w1 where l1: "getline_loop s (CHR 0xFF) [] delim w = Some (s1, CHR 0x00, xs, w1)"
    and ok1: "\<not> fail s1" and p2: "pending w1 = map byte ys @ byte delim # rest"
    by auto
  from getline_loop_bytes [OF ok1 p2 assms(6) assms(7), of "CHR 0xFF" "[]"]
  obtain s2 w2 where l2: "getline_loop s1 (CHR 0xFF) [] delim w1 = Some (s2, delim, ys, w2)"
    and p3: "pending w2 = rest"
    by auto
  from l2 assms(3) have "getline s1 xs delim w1 = Some (s2, ys, w2)"
    by (subst getline.simps) simp
  with l1 have "getline s buffer delim w = Some (s2, ys, w2)"
    by (subst getline.simps) simp
  with p3 show ?thesis by simp
qed

lemma getline_returns_bytes_after_null_example:
  "\<exists>s1 w1. getline \<lparr>rdstate = goodbit, rdbuf = False, sd = 3, errno' = 0\<rparr> ''zz'' (CHR 0x0A)
     (world_of (map byte [CHR ''h'', CHR ''i'', CHR 0x00, CHR ''y'', CHR ''o'', CHR 0x0A, CHR ''x'']))
   = Some (s1, ''yo'', w1) \<and> pending w1 = [byte CHR ''x'']"
  using getline_returns_bytes_after_null [where s = "\<lparr>rdstate = goodbit, rdbuf = False, sd = 3, errno' = 0\<rparr>"
     and w = "world_of (map byte [CHR ''h'', CHR ''i'', CHR 0x00, CHR ''y'', CHR ''o'', CHR 0x0A, CHR ''x''])"
     and xs = "''hi''" and ys = "''yo''" and delim = "CHR 0x0A" and rest = "[byte CHR ''x'']"
     and buffer = "''zz''"]
  by (simp add: world_of_def fail_def goodbit_def)

section \<open>Malformed address text (C4)\<close>

text \<open>
  C4 says that \<open>strToAddr\<close> returns false for text that is not an IPv4 address, such as
  \<open>not.an.ip\<close>, so that the text overloads of \<open>listen\<close> and \<open>connect\<close> set \<open>failbit\<close>.
  \<open>strToAddr\<close> compares the result of \<open>inet_pton\<close> with -1, and \<open>inet_pton\<close> answers 0
  for such text: \<open>strToAddr\<close> returns true with the address 0, and \<open>listen\<close> and
  \<open>connect\<close> go on to bind and to connect to 0.0.0.0 on a socket that stays good.
\<close>

theorem strToAddr_malformed_returns_true:
  "strToAddr ''not.an.ip'' 0 = (True, 0)
   \<and> listen_str \<lparr>rdstate = goodbit, rdbuf = False, sd = 3, errno' = 0\<rparr> 80 ''not.an.ip'' 5
         (world_of [os_ok 0, os_ok 0])
       = Some (\<lparr>rdstate = goodbit, rdbuf = False, sd = 3, errno' = 0\<rparr>,
               (world_of [])\<lparr>calls := [Sys_bind 3 \<lparr>sin_family = AF_INET, sin_port = 80, sin_addr = 0\<rparr>,
                                          Sys_listen 3 5]\<rparr>)
   \<and> connect_str \<lparr>rdstate = goodbit, rdbuf = False, sd = 3, errno' = 0\<rparr> 80 ''not.an.ip''
         (world_of [os_ok 0])
       = Some (\<lparr>rdstate = goodbit, rdbuf = False, sd = 3, errno' = 0\<rparr>,
               (world_of [])\<lparr>calls := [Sys_connect 3 \<lparr>sin_family = AF_INET, sin_port = 80, sin_addr = 0\<rparr>]\<rparr>)"
proof -
  have a: "strToAddr ''not.an.ip'' 0 = (True, 0)"
    by (simp add: strToAddr_def inet_pton_def octet_def is_digit_def)
  show ?thesis
    by (simp add: a listen_str_def connect_str_def listen_def connect_def good_def syscall_def
          world_of_def os_ok_def)
qed

text \<open>Well-formed text is converted, first field first in memory; a field with a
  leading zero is refused, and \<open>strToAddr\<close> reports success all the same.\<close>

lemma strToAddr_loopback: "strToAddr ''127.0.0.1'' 0 = (True, 0x0100007f)"
  by (simp add: strToAddr_def inet_pton_def octet_def is_digit_def)

lemma inet_pton_leading_zero: "inet_pton ''127.0.0.01'' 5 = (0, 5)"
  by (simp add: inet_pton_def octet_def is_digit_def)

section \<open>Move construction (C5)\<close>

lemma Socket_move_source: "snd (Socket_move b other) = other"
  by (simp add: Socket_move_def)

lemma Socket_move_shares: "sd (fst (Socket_move b other)) = sd other"
  by (simp add: Socket_move_def)

text \<open>
  C5 says that move construction hands the descriptor over and leaves the source with
  the descriptor -1, so that no two objects hold the same open descriptor. The move
  constructor copies \<open>_sd\<close> and cannot write to its source: after moving from a socket
  that holds descriptor 3, both objects hold 3 and the source is still open. When the
  two objects are destroyed, descriptor 3 is closed twice.
\<close>

theorem move_leaves_source_open:
  "Socket_move \<lparr>rdstate = goodbit, rdbuf = False\<rparr> \<lparr>rdstate = goodbit, rdbuf = False, sd = 3, errno' = 0\<rparr>
     = (\<lparr>rdstate = goodbit, rdbuf = False, sd = 3, errno' = 0\<rparr>,
        \<lparr>rdstate = goodbit, rdbuf = False, sd = 3, errno' = 0\<rparr>)
   \<and> isOpen (snd (Socket_move \<lparr>rdstate = goodbit, rdbuf = False\<rparr>
                      \<lparr>rdstate = goodbit, rdbuf = False, sd = 3, errno' = 0\<rparr>))
   \<and> (case Socket_move \<lparr>rdstate = goodbit, rdbuf = False\<rparr>
              \<lparr>rdstate = goodbit, rdbuf = False, sd = 3, errno' = 0\<rparr> of
        (new, other) \<Rightarrow>
          Option.bind (Socket_dtor other (world_of [os_ok 0, os_error 9]))
            (\<lambda>(other1, w1). map_option (\<lambda>(new1, w2). calls w2) (Socket_dtor new w1)))
       = Some [Sys_close 3, Sys_close 3]"
  by (simp add: Socket_move_def isOpen_def Socket_dtor_def close_def syscall_def world_of_def
        os_ok_def os_error_def)

section \<open>A constructor whose option call fails (C6)\<close>

text \<open>
  C6: when the \<open>setsockopt\<close> call of the constructor fails, the constructor sets
  \<open>failbit\<close> and closes the descriptor it was given; the object ends with \<open>failbit\<close>
  set, the descriptor -1 and \<open>isOpen()\<close> false. This holds whatever \<open>::close\<close> answers
  and whatever state the base subobject starts in.
\<close>

theorem ctor_setsockopt_failure:
  assumes "pending w = r1 # r2 # rs" and "ret r1 = -1"
  shows "\<exists>s1 w1. Socket_int b sd0 w = Some (s1, w1)
           \<and> Failbit \<in> rdstate s1 \<and> \<not> isOpen s1 \<and> sd s1 = -1
           \<and> calls w1 = calls w @ [Sys_setsockopt sd0, Sys_close sd0]
           \<and> errno' s1 = errno w1"
  using assms
  by (auto simp: Socket_int_def close_def syscall_def Let_def operator_not_def fail_def
        failbit_def badbit_def goodbit_def isOpen_def)

theorem ctor_setsockopt_failure_witness:
  "\<exists>s1 w1. Socket_int \<lparr>rdstate = goodbit, rdbuf = False\<rparr> 3 (world_of [os_error 92, os_ok 0])
              = Some (s1, w1)
     \<and> Failbit \<in> rdstate s1 \<and> \<not> isOpen s1 \<and> sd s1 = -1
     \<and> calls w1 = [Sys_setsockopt 3, Sys_close 3] \<and> errno' s1 = errno w1"
  using ctor_setsockopt_failure [where w = "world_of [os_error 92, os_ok 0]" and ?r1.0 = "os_error 92"
          and ?r2.0 = "os_ok 0" and rs = "[]"
          and b = "\<lparr>rdstate = goodbit, rdbuf = False\<rparr>" and ?sd0.0 = 3]
  by (auto simp: world_of_def os_ok_def os_error_def)

section \<open>No call clears a status bit (C7)\<close>

lemma keeps_refl [simp]: "keeps s s"
  by (simp add: keeps_def)

lemma keeps_trans: "keeps s s1 \<Longrightarrow> keeps s1 s2 \<Longrightarrow> keeps s s2"
  by (auto simp: keeps_def)

lemma keeps_errno [simp]: "keeps s (s1\<lparr>errno' := e\<rparr>) = keeps s s1"
  by (simp add: keeps_def)

lemma keeps_sd [simp]: "keeps s (s1\<lparr>sd := e\<rparr>) = keeps s s1"
  by (simp add: keeps_def)

lemma keeps_setstate [simp]: "keeps s s1 \<Longrightarrow> keeps s (setstate st s1)"
  by (auto simp: keeps_def)

lemma close_keeps: "close s w = Some (s1, w1) \<Longrightarrow> keeps s s1"
  by (cases "pending w") (auto simp: close_def syscall_def)

lemma listen_keeps: "listen s port addr count w = Some (s1, w1) \<Longrightarrow> keeps s s1"
  unfolding listen_def syscall_def Let_def
  by (auto split: if_splits list.splits Option.bind_splits)

lemma connect_keeps: "connect s port addr w = Some (s1, w1) \<Longrightarrow> keeps s s1"
  unfolding connect_def syscall_def Let_def
  by (auto split: if_splits list.splits Option.bind_splits)

lemma listen_str_keeps: "listen_str s port addrstr count w = Some (s1, w1) \<Longrightarrow> keeps s s1"
  unfolding listen_str_def Let_def
  by (auto split: prod.splits if_splits dest!: listen_keeps elim: keeps_trans [rotated])

lemma connect_str_keeps: "connect_str s port addrstr w = Some (s1, w1) \<Longrightarrow> keeps s s1"
  unfolding connect_str_def Let_def
  by (auto split: prod.splits if_splits dest!: connect_keeps elim: keeps_trans [rotated])

lemma accept_keeps: "accept b s w = Some (peer, s1, w1) \<Longrightarrow> keeps s s1"
  unfolding accept_def Let_def
  by (auto split: if_splits Option.bind_splits)

lemma errcode_keeps: "errcode s w = Some (e, s1, w1) \<Longrightarrow> keeps s s1"
  unfolding errcode_def syscall_def Let_def
  by (auto split: if_splits list.splits Option.bind_splits)

lemma strerror_keeps: "strerror d s w = Some (e, s1, w1) \<Longrightarrow> keeps s s1"
  unfolding strerror_def
  by (auto split: Option.bind_splits dest: errcode_keeps)

lemma read_keeps: "read s buffer len w = Some (b1, s1, w1) \<Longrightarrow> keeps s s1"
  unfolding read_def syscall_def Let_def
  by (auto split: if_splits list.splits Option.bind_splits)

lemma write_sock_keeps: "write_sock s buffer len w = Some (s1, w1) \<Longrightarrow> keeps s s1"
  unfolding write_sock_def syscall_def Let_def
  by (auto split: if_splits list.splits Option.bind_splits)

lemma info_keeps: "info s w = Some (a, s1, w1) \<Longrightarrow> keeps s s1"
  unfolding info_def syscall_def Let_def
  by (auto split: if_splits list.splits Option.bind_splits)

lemma peerinfo_keeps: "peerinfo s w = Some (a, s1, w1) \<Longrightarrow> keeps s s1"
  unfolding peerinfo_def syscall_def Let_def
  by (auto split: if_splits list.splits Option.bind_splits)

lemma localinfo_keeps: "localinfo b s w = Some (a, s1, w1) \<Longrightarrow> keeps s s1"
  unfolding localinfo_def Let_def
  by (auto split: if_splits Option.bind_splits)

lemma getline_loop_keeps:
  "getline_loop s c buffer delim w = Some (s1, c1, b1, w1) \<Longrightarrow> keeps s s1"
proof (induction s c buffer delim w rule: getline_loop.induct)
  case (1 s c buffer delim w)
  from "1.prems" obtain cbuf s2 w2 where rd: "read s [c] 1 w = Some (cbuf, s2, w2)"
    by (subst (asm) getline_loop.simps) (auto split: option.splits)
  define c2 where "c2 = (case cbuf of [] \<Rightarrow> c | x # _ \<Rightarrow> x)"
  note k = read_keeps [OF rd]
  show ?case
  proof (cases "operator_bool s2 \<and> c2 \<noteq> delim \<and> c2 \<noteq> CHR 0x00")
    case True
    with "1.prems" rd have "getline_loop s2 c2 (buffer @ [c2]) delim w2 = Some (s1, c1, b1, w1)"
      by (subst (asm) getline_loop.simps) (simp add: c2_def Let_def)
    from "1.IH" [OF rd refl refl c2_def True this] k show ?thesis
      by (rule keeps_trans [rotated])
  next
    case False
    with "1.prems" rd have "s1 = s2"
      by (subst (asm) getline_loop.simps) (auto simp: c2_def Let_def)
    with k show ?thesis by simp
  qed
qed

lemma getline_keeps:
  "getline s buffer delim w = Some (s1, b1, w1) \<Longrightarrow> keeps s s1"
proof (induction s buffer delim w rule: getline.induct)
  case (1 s buffer delim w)
  from "1.prems" obtain s2 c b2 w2
    where lp: "getline_loop s (CHR 0xFF) [] delim w = Some (s2, c, b2, w2)"
    by (subst (asm) getline.simps) (auto split: option.splits)
  note k = getline_loop_keeps [OF lp]
  show ?case
  proof (cases "c = CHR 0x00")
    case True
    with "1.prems" lp have "getline s2 b2 delim w2 = Some (s1, b1, w1)"
      by (subst (asm) getline.simps) simp
    from "1.IH" [OF lp refl refl refl True this] k show ?thesis
      by (rule keeps_trans [rotated])
  next
    case False
    with "1.prems" lp have "s1 = s2"
      by (subst (asm) getline.simps) simp
    with k show ?thesis by simp
  qed
qed

lemma step_keeps: "step b d x s w = Some (s1, w1) \<Longrightarrow> keeps s s1"
  by (cases x)
     (auto split: Option.bind_splits
        dest: listen_keeps listen_str_keeps accept_keeps connect_keeps connect_str_keeps
        close_keeps errcode_keeps strerror_keeps read_keeps getline_keeps write_sock_keeps
        info_keeps peerinfo_keeps localinfo_keeps)

lemma run_keeps: "run b d xs s w = Some (s1, w1) \<Longrightarrow> keeps s s1"
proof (induction xs arbitrary: s w)
  case Nil
  then show ?case by simp
next
  case (Cons x xs)
  from Cons.prems obtain s2 w2 where st: "step b d x s w = Some (s2, w2)"
    and rn: "run b d xs s2 w2 = Some (s1, w1)"
    by (auto split: option.splits)
  from step_keeps [OF st] Cons.IH [OF rn] show ?case by (rule keeps_trans)
qed

text \<open>
  C7: over every sequence of calls of the member functions of \<open>Socket\<close>, a status bit
  that is set stays set; in particular once \<open>failbit\<close> or \<open>badbit\<close> is set, no call
  returns the status to good. The sequence may contain any member function, \<open>close\<close>
  included, since \<open>close\<close> clears nothing either; what can clear a bit is a call from
  outside of a member inherited from \<open>std::ios\<close>, such as \<open>clear\<close>.
\<close>

theorem status_bits_never_cleared:
  assumes "run b d ops s w = Some (s1, w1)"
  shows "rdstate s \<subseteq> rdstate s1"
  using run_keeps [OF assms] by (simp add: keeps_def)

theorem status_bits_never_cleared_witness:
  "run \<lparr>rdstate = goodbit, rdbuf = False\<rparr> (\<lambda>e. ''error'')
     [Op_read ''x'' 1, Op_listen 80 0 5, Op_close, Op_getline [] (CHR 0x0A), Op_connect 80 0,
      Op_write ''hi'' 2, Op_isOpen]
     \<lparr>rdstate = failbit, rdbuf = True, sd = 3, errno' = 0\<rparr>
     (world_of [os_ok 0, os_ok 0, os_error 9, os_error 9])
   = Some (\<lparr>rdstate = {Badbit, Eofbit, Failbit}, rdbuf = True, sd = -1, errno' = 9\<rparr>,
           (world_of [])\<lparr>errno := 9,
              calls := [Sys_read 3 1, Sys_close 3, Sys_read (-1) 1, Sys_write (-1) ''hi'' 2]\<rparr>)
   \<and> failbit \<subseteq> {Badbit, Eofbit, Failbit}"
proof -
  have r: "run \<lparr>rdstate = goodbit, rdbuf = False\<rparr> (\<lambda>e. ''error'')
     [Op_read ''x'' 1, Op_listen 80 0 5, Op_close, Op_getline [] (CHR 0x0A), Op_connect 80 0,
      Op_write ''hi'' 2, Op_isOpen]
     \<lparr>rdstate = failbit, rdbuf = True, sd = 3, errno' = 0\<rparr>
     (world_of [os_ok 0, os_ok 0, os_error 9, os_error 9])
   = Some (\<lparr>rdstate = {Badbit, Eofbit, Failbit}, rdbuf = True, sd = -1, errno' = 9\<rparr>,
           (world_of [])\<lparr>errno := 9,
              calls := [Sys_read 3 1, Sys_close 3, Sys_read (-1) 1, Sys_write (-1) ''hi'' 2]\<rparr>)"
    by (auto simp: read_def listen_def connect_def write_sock_def close_def getline.simps
          getline_loop.simps syscall_def world_of_def os_ok_def os_error_def store_def good_def
          operator_bool_def fail_def goodbit_def failbit_def badbit_def eofbit_def)
  from status_bits_never_cleared [OF r] r show ?thesis by simp
qed

section \<open>\<open>listen\<close>: bind, then listen (C8)\<close>

text \<open>
  C8: \<open>listen(port, address, backlog)\<close> first attempts \<open>::bind\<close> and then \<open>::listen\<close>,
  each only when the status is good just before it. On a socket that is not good
  neither call is issued. On a good socket \<open>::bind\<close> is issued; if it fails,
  \<open>failbit\<close> is set and \<open>::listen\<close> is not issued (the next reply of the operating
  system is left unused); if it succeeds, \<open>::listen\<close> is issued next, and \<open>failbit\<close>
  is set exactly when that call fails.
\<close>

theorem listen_bind_then_listen:
  "(\<not> good s \<longrightarrow> listen s port addr count w = Some (s\<lparr>errno' := errno w\<rparr>, w))
   \<and> (good s \<and> pending w = r1 # rs \<and> ret r1 = -1 \<longrightarrow>
        (\<exists>s1 w1. listen s port addr count w = Some (s1, w1)
           \<and> Failbit \<in> rdstate s1
           \<and> calls w1 = calls w @ [Sys_bind (sd s) \<lparr>sin_family = AF_INET, sin_port = port, sin_addr = addr\<rparr>]
           \<and> pending w1 = rs))
   \<and> (good s \<and> pending w = r1 # r2 # rs' \<and> ret r1 \<noteq> -1 \<longrightarrow>
        (\<exists>s1 w1. listen s port addr count w = Some (s1, w1)
           \<and> (Failbit \<in> rdstate s1) = (ret r2 = -1)
           \<and> good s1 = (ret r2 \<noteq> -1)
           \<and> calls w1 = calls w @ [Sys_bind (sd s) \<lparr>sin_family = AF_INET, sin_port = port, sin_addr = addr\<rparr>,
                                      Sys_listen (sd s) count]
           \<and> pending w1 = rs'))"
  by (auto simp: listen_def syscall_def Let_def good_def goodbit_def failbit_def badbit_def)

theorem listen_bind_then_listen_witness:
  "listen \<lparr>rdstate = eofbit, rdbuf = True, sd = 3, errno' = 0\<rparr> 80 0 5 (world_of [os_ok 0])
     = Some (\<lparr>rdstate = eofbit, rdbuf = True, sd = 3, errno' = 0\<rparr>, world_of [os_ok 0])
   \<and> (\<exists>s1 w1. listen \<lparr>rdstate = goodbit, rdbuf = True, sd = 3, errno' = 0\<rparr> 80 0 5
                  (world_of [os_error 98, os_ok 0]) = Some (s1, w1)
         \<and> Failbit \<in> rdstate s1
         \<and> calls w1 = [Sys_bind 3 \<lparr>sin_family = AF_INET, sin_port = 80, sin_addr = 0\<rparr>]
         \<and> pending w1 = [os_ok 0])
   \<and> (\<exists>s1 w1. listen \<lparr>rdstate = goodbit, rdbuf = True, sd = 3, errno' = 0\<rparr> 80 0 5
                  (world_of [os_ok 0, os_ok 0]) = Some (s1, w1)
         \<and> good s1
         \<and> calls w1 = [Sys_bind 3 \<lparr>sin_family = AF_INET, sin_port = 80, sin_addr = 0\<rparr>,
                       Sys_listen 3 5]
         \<and> pending w1 = [])"
  using listen_bind_then_listen [where s = "\<lparr>rdstate = eofbit, rdbuf = True, sd = 3, errno' = 0\<rparr>"
          and port = 80 and addr = 0 and count = 5 and w = "world_of [os_ok 0]"]
        listen_bind_then_listen [where s = "\<lparr>rdstate = goodbit, rdbuf = True, sd = 3, errno' = 0\<rparr>"
          and port = 80 and addr = 0 and count = 5 and w = "world_of [os_error 98, os_ok 0]"
          and ?r1.0 = "os_error 98" and rs = "[os_ok 0]"]
        listen_bind_then_listen [where s = "\<lparr>rdstate = goodbit, rdbuf = True, sd = 3, errno' = 0\<rparr>"
          and port = 80 and addr = 0 and count = 5 and w = "world_of [os_ok 0, os_ok 0]"
          and ?r1.0 = "os_ok 0" and ?r2.0 = "os_ok 0" and rs' = "[]"]
  by (auto simp: world_of_def os_ok_def os_error_def good_def goodbit_def eofbit_def)

section \<open>What \<open>read\<close> records (C9)\<close>

text \<open>
  C9: a \<open>read(buffer, maxLength)\<close> whose \<open>::read\<close> returns 0 while \<open>maxLength > 0\<close>
  sets \<open>eofbit\<close>; one whose \<open>::read\<close> returns -1 sets \<open>badbit\<close>. In every case the
  saved error number is the value of \<open>errno\<close> after the call, the call has been issued
  once, and what is returned is the object itself: same descriptor, same stream
  buffer, no status bit lost.
\<close>

theorem read_sets_eof_or_bad:
  assumes "pending w = r # rs"
  shows "\<exists>buffer1 s1 w1. read s buffer len w = Some (buffer1, s1, w1)
           \<and> (ret r = 0 \<and> 0 < len \<longrightarrow> Eofbit \<in> rdstate s1)
           \<and> (ret r = -1 \<longrightarrow> Badbit \<in> rdstate s1)
           \<and> errno w1 = (case err r of None \<Rightarrow> errno w | Some e \<Rightarrow> e)
           \<and> errno' s1 = errno w1
           \<and> sd s1 = sd s \<and> rdbuf s1 = rdbuf s \<and> rdstate s \<subseteq> rdstate s1
           \<and> calls w1 = calls w @ [Sys_read (sd s) len]"
  using assms
  by (auto simp: read_def syscall_def Let_def eofbit_def badbit_def)

theorem read_sets_eof_or_bad_witness:
  "(\<exists>buffer1 s1 w1.
      read \<lparr>rdstate = goodbit, rdbuf = True, sd = 3, errno' = 0\<rparr> ''x'' 1 (world_of [os_ok 0])
        = Some (buffer1, s1, w1)
      \<and> Eofbit \<in> rdstate s1 \<and> errno' s1 = errno w1 \<and> sd s1 = 3)
   \<and> (\<exists>buffer1 s1 w1.
      read \<lparr>rdstate = goodbit, rdbuf = True, sd = 3, errno' = 0\<rparr> ''x'' 1 (world_of [os_error 104])
        = Some (buffer1, s1, w1)
      \<and> Badbit \<in> rdstate s1 \<and> errno w1 = 104 \<and> errno' s1 = 104 \<and> sd s1 = 3)"
  using read_sets_eof_or_bad [where w = "world_of [os_ok 0]" and r = "os_ok 0" and rs = "[]"
          and s = "\<lparr>rdstate = goodbit, rdbuf = True, sd = 3, errno' = 0\<rparr>"
          and buffer = "''x''" and len = 1]
        read_sets_eof_or_bad [where w = "world_of [os_error 104]" and r = "os_error 104" and rs = "[]"
          and s = "\<lparr>rdstate = goodbit, rdbuf = True, sd = 3, errno' = 0\<rparr>"
          and buffer = "''x''" and len = 1]
  by (auto simp: world_of_def os_ok_def os_error_def)

section \<open>An \<open>accept\<close> that fails (C10)\<close>

text \<open>
  C10: when \<open>::accept\<close> fails, or is not called because the listening socket is not
  good, \<open>accept\<close> constructs the returned object from the descriptor -1. The
  constructor's \<open>setsockopt\<close> on that descriptor fails, so the returned object has
  \<open>failbit\<close> set, the descriptor -1 and \<open>isOpen()\<close> false, after a \<open>::close\<close> of -1
  whose answer does not matter. The status bits of the listening socket are not
  changed.
\<close>

theorem accept_failure_returns_closed_socket:
  assumes "pending w = (if good s then [ra] else []) @ rs # rc # rest"
    and "ret ra = -1" and "ret rs = -1"
  shows "\<exists>peer s1 w1. accept b s w = Some (peer, s1, w1)
           \<and> sd peer = -1 \<and> \<not> isOpen peer \<and> Failbit \<in> rdstate peer
           \<and> calls w1 = calls w @ (if good s then [Sys_accept (sd s)] else [])
                          @ [Sys_setsockopt (-1), Sys_close (-1)]
           \<and> rdstate s1 = rdstate s"
  using assms
  by (auto simp: accept_def Socket_int_def close_def syscall_def Let_def operator_not_def fail_def
        failbit_def badbit_def goodbit_def isOpen_def)

theorem accept_failure_returns_closed_socket_witness:
  "(\<exists>peer s1 w1. accept \<lparr>rdstate = goodbit, rdbuf = False\<rparr>
                     \<lparr>rdstate = goodbit, rdbuf = False, sd = 3, errno' = 0\<rparr>
                     (world_of [os_error 11, os_error 9, os_error 9]) = Some (peer, s1, w1)
      \<and> sd peer = -1 \<and> \<not> isOpen peer \<and> Failbit \<in> rdstate peer
      \<and> calls w1 = [Sys_accept 3, Sys_setsockopt (-1), Sys_close (-1)])
   \<and> (\<exists>peer s1 w1. accept \<lparr>rdstate = goodbit, rdbuf = False\<rparr>
                     \<lparr>rdstate = failbit, rdbuf = False, sd = 3, errno' = 0\<rparr>
                     (world_of [os_error 9, os_error 9]) = Some (peer, s1, w1)
      \<and> sd peer = -1 \<and> \<not> isOpen peer \<and> Failbit \<in> rdstate peer
      \<and> calls w1 = [Sys_setsockopt (-1), Sys_close (-1)])"
  using accept_failure_returns_closed_socket [where w = "world_of [os_error 11, os_error 9, os_error 9]"
          and s = "\<lparr>rdstate = goodbit, rdbuf = False, sd = 3, errno' = 0\<rparr>"
          and ra = "os_error 11" and rs = "os_error 9" and rc = "os_error 9" and rest = "[]"
          and b = "\<lparr>rdstate = goodbit, rdbuf = False\<rparr>"]
        accept_failure_returns_closed_socket [where w = "world_of [os_error 9, os_error 9]"
          and s = "\<lparr>rdstate = failbit, rdbuf = False, sd = 3, errno' = 0\<rparr>"
          and ra = "os_error 11" and rs = "os_error 9" and rc = "os_error 9" and rest = "[]"
          and b = "\<lparr>rdstate = goodbit, rdbuf = False\<rparr>"]
  by (auto simp: world_of_def os_ok_def os_error_def good_def goodbit_def failbit_def)

end
